theory Spec2Isabelle
  imports Complex_Main
begin

section \<open>Global progressive tax calculator (streamlit_app.py)\<close>

text \<open>
  The program computes with Python and NumPy floating-point numbers. This development
  embeds it over the real numbers: every literal is its decimal value, every operation is
  exact, and \<open>np.log\<close> is the natural logarithm \<^term>\<open>ln\<close>. Rounding is therefore
  outside the model; what is proved is the arithmetic the code writes down.

  Python raises \<open>ZeroDivisionError\<close> when a float is divided by zero; the one division
  of the program whose divisor depends on an argument is modelled with that error as a
  value.
\<close>

subsection \<open>Data\<close>

datatype py_error = ZeroDivisionError

text \<open>
  The dictionary \<open>bracket_rates\<close> has exactly the keys \<open>'90-99%'\<close>,
  \<open>'99-99.9%'\<close> and \<open>'99.9-100%'\<close>; they become the fields of a record.
\<close>

record bracket_rates_t =
  r_90_99 :: real
  r_99_999 :: real
  r_999_100 :: real

record solver_result =
  ubi_yearly :: real
  total_needed :: real
  required_share_gdp :: real
  avg_required_on_top10 :: real
  bracket_rates :: bracket_rates_t
  cap_tax_revenue :: real
  cap_monthly :: "real option"

record personal_outcome =
  tax_rate :: real
  tax_amount :: real
  after_tax_income_monthly :: real
  diff_eur :: real
  diff_pct :: real

subsection \<open>Constants of \<open>global_tax_calculator\<close>\<close>

definition population :: real where
  "population = 8230000000"

definition world_gdp :: real where
  "world_gdp = 97800000000000"

definition share_90_99 :: real where
  "share_90_99 = 0.314"

definition share_99_999 :: real where
  "share_99_999 = 0.118"

definition share_top001 :: real where
  "share_top001 = 0.086"

definition top10_share :: real where
  "top10_share = share_90_99 + share_99_999 + share_top001"

definition base_multipliers :: "real list" where
  "base_multipliers = [0.35, 1.5, 2.7]"

subsection \<open>\<open>global_tax_calculator\<close>\<close>

text \<open>
  \<open>income_cap_factor\<close> is \<open>None\<close> or a number. The three list comprehensions of
  step 3 run over three-element lists, so the indices 0, 1 and 2 read at the end are in
  range. \<open>cap_monthly\<close> tests the truthiness of \<open>income_cap_factor\<close>: \<open>None\<close>
  and \<open>0\<close> both give \<open>None\<close>.
\<close>

definition global_tax_calculator ::
  "real \<Rightarrow> real \<Rightarrow> real option \<Rightarrow> real \<Rightarrow> py_error + solver_result" where
  "global_tax_calculator basic_income overhead income_cap_factor progression_strength =
    (let ubi_yearly = basic_income * 12 * population;
         total_needed = ubi_yearly * (1 + overhead);
         required_share_gdp = total_needed / world_gdp;
         avg_required_on_top10 = required_share_gdp / top10_share;
         scaled_multipliers =
           map (\<lambda>m. 1 + (m - 1) * progression_strength / 3) base_multipliers;
         weights = [share_90_99, share_99_999, share_top001];
         weighted_avg =
           sum_list (map (\<lambda>(w, m). w * m) (zip weights scaled_multipliers)) / top10_share
     in if weighted_avg = 0 then Inl ZeroDivisionError
        else
          let scale_factor = avg_required_on_top10 / weighted_avg;
              rates = map (\<lambda>m. m * scale_factor) scaled_multipliers;
              cap_tax_revenue =
                (case income_cap_factor of
                   None \<Rightarrow> 0
                 | Some f \<Rightarrow>
                     let cap_yearly = basic_income * f * 12;
                         avg_top001_income = world_gdp * share_top001 / (population * 0.001)
                     in if avg_top001_income > cap_yearly
                        then (avg_top001_income - cap_yearly) * (population * 0.001)
                        else 0)
          in Inr \<lparr>ubi_yearly = ubi_yearly,
                  total_needed = total_needed,
                  required_share_gdp = required_share_gdp,
                  avg_required_on_top10 = avg_required_on_top10,
                  bracket_rates =
                    \<lparr>r_90_99 = rates ! 0, r_99_999 = rates ! 1, r_999_100 = rates ! 2\<rparr>,
                  cap_tax_revenue = cap_tax_revenue,
                  cap_monthly =
                    (case income_cap_factor of
                       None \<Rightarrow> None
                     | Some f \<Rightarrow> if f \<noteq> 0 then Some (basic_income * f) else None)\<rparr>)"

subsection \<open>NumPy operations\<close>

text \<open>
  \<open>np.interp(x, xp, fp)\<close> on a scalar \<open>x\<close> and increasing sample positions
  \<open>xp\<close>: left of the first position it gives the first value, right of the last the
  last value, and otherwise it finds the index \<open>j\<close> with \<open>xp[j] \<le> x < xp[j+1]\<close> and
  returns \<open>fp[j]\<close> when \<open>x = xp[j]\<close> or \<open>j\<close> is the last index, and
  \<open>slope * (x - xp[j]) + fp[j]\<close> with
  \<open>slope = (fp[j+1] - fp[j]) / (xp[j+1] - xp[j])\<close> else. NumPy refuses empty arrays
  and arrays of different lengths; \<open>interp_from\<close> has no equation there.
\<close>

fun interp_from :: "real \<Rightarrow> real list \<Rightarrow> real list \<Rightarrow> real" where
  "interp_from x (x0 # x1 # xs) (y0 # y1 # ys) =
     (if x < x1
      then (if x = x0 then y0 else (y1 - y0) / (x1 - x0) * (x - x0) + y0)
      else interp_from x (x1 # xs) (y1 # ys))"
| "interp_from x [x0] [y0] = y0"

definition np_interp :: "real \<Rightarrow> real list \<Rightarrow> real list \<Rightarrow> real" where
  "np_interp x xp fp =
     (if x > last xp then last fp
      else if x < hd xp then hd fp
      else interp_from x xp fp)"

text \<open>
  \<open>np.linspace(start, stop, num)\<close>: \<open>num\<close> samples \<open>start + i * step\<close> with
  \<open>step = (stop - start) / (num - 1)\<close>, the last one set to \<open>stop\<close>.
\<close>

definition np_linspace :: "real \<Rightarrow> real \<Rightarrow> nat \<Rightarrow> real list" where
  "np_linspace start stop num =
     (if num = 0 then []
      else if num = 1 then [start]
      else (map (\<lambda>i. start + real i * ((stop - start) / real (num - 1))) [0..<num])
             [num - 1 := stop])"

text \<open>\<open>np.insert(arr, i, v)\<close> for \<open>0 \<le> i \<le> len(arr)\<close> and \<open>np.diff(arr)\<close>.\<close>

definition np_insert :: "real list \<Rightarrow> nat \<Rightarrow> real \<Rightarrow> real list" where
  "np_insert arr i v = take i arr @ v # drop i arr"

definition np_diff :: "real list \<Rightarrow> real list" where
  "np_diff arr = map (\<lambda>(a, b). b - a) (zip arr (tl arr))"

subsection \<open>\<open>create_tax_function\<close>\<close>

definition cap_yearly :: "real \<Rightarrow> real \<Rightarrow> real" where
  "cap_yearly basic_income f = basic_income * f * 12"

definition x_points :: "real list" where
  "x_points = [0, 15000, 55000, 200000]"

definition y_points :: "bracket_rates_t \<Rightarrow> real list" where
  "y_points rates = [0, r_90_99 rates, r_99_999 rates, r_999_100 rates]"

text \<open>
  \<open>create_tax_function\<close> returns the closure \<open>tax_curve\<close>; the closure is the partial
  application of the model to its first three arguments.
\<close>

definition create_tax_function ::
  "bracket_rates_t \<Rightarrow> real \<Rightarrow> real option \<Rightarrow> real \<Rightarrow> real" where
  "create_tax_function rates basic_income income_cap_factor annual_income =
     (if (case income_cap_factor of
            None \<Rightarrow> False
          | Some f \<Rightarrow> annual_income \<ge> cap_yearly basic_income f)
      then 1
      else
        let log_x = map (\<lambda>v. ln (max v 1)) x_points;
            log_income = ln (max annual_income 1)
        in np_interp log_income log_x (y_points rates))"

subsection \<open>\<open>calculate_personal_outcome\<close>\<close>

definition steps :: nat where
  "steps = 10000"

text \<open>Lines 86 to 90: the integration of the curve up to \<open>taxable_income\<close>.\<close>

definition quadrature :: "(real \<Rightarrow> real) \<Rightarrow> real \<Rightarrow> real" where
  "quadrature curve taxable_income =
     (let increments = np_linspace 0 taxable_income steps;
          marginal_rates = map curve increments;
          step_sizes = np_diff (np_insert increments 0 0)
      in sum_list (map (\<lambda>(s, r). s * r) (zip step_sizes marginal_rates)))"

definition calculate_personal_outcome ::
  "real \<Rightarrow> real \<Rightarrow> (real \<Rightarrow> real) \<Rightarrow> real option \<Rightarrow> personal_outcome" where
  "calculate_personal_outcome monthly_income basic_income curve income_cap_factor =
     (let yearly_income = monthly_income * 12;
          taxable_income =
            (case income_cap_factor of
               None \<Rightarrow> yearly_income
             | Some f \<Rightarrow> min yearly_income (cap_yearly basic_income f));
          integrated = quadrature curve taxable_income;
          tax_amount =
            (case income_cap_factor of
               None \<Rightarrow> integrated
             | Some f \<Rightarrow>
                 if yearly_income > cap_yearly basic_income f
                 then integrated + (yearly_income - cap_yearly basic_income f)
                 else integrated);
          after_tax = yearly_income - tax_amount + basic_income * 12;
          after_tax_income =
            (case income_cap_factor of
               None \<Rightarrow> after_tax
             | Some f \<Rightarrow> min after_tax (cap_yearly basic_income f + basic_income * 12))
      in \<lparr>tax_rate = (if yearly_income > 0 then tax_amount / yearly_income * 100 else 0),
          tax_amount = tax_amount / 12,
          after_tax_income_monthly = after_tax_income / 12,
          diff_eur = (after_tax_income - yearly_income) / 12,
          diff_pct =
            (if yearly_income > 0
             then (after_tax_income - yearly_income) / yearly_income * 100
             else 0)\<rparr>)"

subsection \<open>Notions of the specification\<close>

text \<open>
  The population-share-weighted average of three bracket rates: each segment's share of
  the top decile times its rate.
\<close>

definition weighted_rate_average :: "bracket_rates_t \<Rightarrow> real" where
  "weighted_rate_average br =
     share_90_99 / top10_share * r_90_99 br
     + share_99_999 / top10_share * r_99_999 br
     + share_top001 / top10_share * r_999_100 br"

text \<open>
  The right-endpoint Riemann sum of \<open>f\<close> over \<open>[a, b]\<close> cut into \<open>n\<close> equal
  subintervals: each contributes its width times the value of \<open>f\<close> at its right end.
\<close>

definition right_riemann_sum :: "(real \<Rightarrow> real) \<Rightarrow> real \<Rightarrow> real \<Rightarrow> nat \<Rightarrow> real" where
  "right_riemann_sum f a b n =
     (\<Sum>i = 1..n. (b - a) / real n * f (a + real i * ((b - a) / real n)))"

text \<open>
  The data model admits an income cap factor that is absent or positive, and a basic
  income that is not negative.
\<close>

definition valid_cap :: "real option \<Rightarrow> bool" where
  "valid_cap income_cap_factor =
     (case income_cap_factor of None \<Rightarrow> True | Some f \<Rightarrow> 0 < f)"

section \<open>Properties\<close>

subsection \<open>The solver\<close>

lemmas constants_defs =
  population_def world_gdp_def share_90_99_def share_99_999_def share_top001_def
  top10_share_def base_multipliers_def

lemma rescale_average:
  fixes t W a :: real
  assumes "W = (w1 * m1 + w2 * m2 + w3 * m3) / t" and "W \<noteq> 0"
  shows "w1 / t * (m1 * (a / W)) + w2 / t * (m2 * (a / W)) + w3 / t * (m3 * (a / W)) = a"
proof -
  have "w1 / t * (m1 * (a / W)) + w2 / t * (m2 * (a / W)) + w3 / t * (m3 * (a / W))
      = (a / W) * ((w1 * m1 + w2 * m2 + w3 * m3) / t)"
    by (simp add: algebra_simps add_divide_distrib)
  also have "\<dots> = (a / W) * W" using assms(1) by simp
  also have "\<dots> = a" using assms(2) by simp
  finally show ?thesis .
qed

text \<open>
  The weighted average of the scaled multipliers is \<open>1 + 11 p / 15540\<close>, so the division
  by it fails at exactly one progression strength, a negative one.
\<close>

lemma global_tax_calculator_error_iff:
  "global_tax_calculator b ov cap p = Inl e \<longleftrightarrow> p = - 15540 / 11"
  by (cases e) (simp add: global_tax_calculator_def constants_defs Let_def field_simps)

lemma global_tax_calculator_returns:
  assumes "0 < p"
  shows "\<exists>r. global_tax_calculator b ov cap p = Inr r"
proof (cases "global_tax_calculator b ov cap p")
  case (Inl e)
  then have "p = - 15540 / 11" by (simp add: global_tax_calculator_error_iff)
  with assms show ?thesis by simp
next
  case (Inr r)
  then show ?thesis by blast
qed

lemma weighted_average_of_result:
  assumes "global_tax_calculator b ov cap p = Inr r"
  shows "weighted_rate_average (bracket_rates r) = avg_required_on_top10 r"
proof -
  let ?G = "global_tax_calculator b ov cap p"
  define m1 m2 m3 where "m1 = 1 + (0.35 - 1) * p / 3" and "m2 = 1 + (1.5 - 1) * p / 3"
    and "m3 = 1 + (2.7 - 1) * p / 3"
  define W where
    "W = (share_90_99 * m1 + share_99_999 * m2 + share_top001 * m3) / top10_share"
  define a where "a = b * 12 * population * (1 + ov) / world_gdp / top10_share"
  have "isl ?G \<longleftrightarrow> W = 0"
    by (simp add: global_tax_calculator_def Let_def base_multipliers_def W_def
        m1_def m2_def m3_def)
  with assms have W: "W \<noteq> 0" by auto
  have "avg_required_on_top10 (projr ?G) = a"
    and "r_90_99 (bracket_rates (projr ?G)) = m1 * (a / W)"
    and "r_99_999 (bracket_rates (projr ?G)) = m2 * (a / W)"
    and "r_999_100 (bracket_rates (projr ?G)) = m3 * (a / W)"
    using W
    by (simp_all add: global_tax_calculator_def Let_def base_multipliers_def W_def a_def
        m1_def m2_def m3_def)
  with assms have avg: "avg_required_on_top10 r = a"
    and br: "r_90_99 (bracket_rates r) = m1 * (a / W)"
      "r_99_999 (bracket_rates r) = m2 * (a / W)"
      "r_999_100 (bracket_rates r) = m3 * (a / W)"
    by simp_all
  show ?thesis
    unfolding weighted_rate_average_def br avg
    using rescale_average [OF W_def W] by simp
qed

text \<open>
  Claim C1. \<open>global_tax_calculator\<close> fails only at progression strength
  \<open>- 15540 / 11\<close>, and whenever it returns, the weighted average of the three returned
  bracket rates (segment share over \<open>top10_share\<close>, times the segment's rate) equals the
  returned \<open>avg_required_on_top10\<close>.
\<close>

theorem weighted_average_equals_target:
  "case global_tax_calculator b ov cap p of
     Inl e \<Rightarrow> p = - 15540 / 11
   | Inr r \<Rightarrow> weighted_rate_average (bracket_rates r) = avg_required_on_top10 r"
proof (cases "global_tax_calculator b ov cap p")
  case (Inl e)
  then have "p = - 15540 / 11" by (simp add: global_tax_calculator_error_iff)
  with Inl show ?thesis by simp
next
  case (Inr r)
  then show ?thesis by (simp add: weighted_average_of_result)
qed

theorem weighted_average_equals_target_witness:
  "\<not> isl (global_tax_calculator 30 (1/10) None 3)
   \<and> weighted_rate_average (bracket_rates (projr (global_tax_calculator 30 (1/10) None 3)))
     = avg_required_on_top10 (projr (global_tax_calculator 30 (1/10) None 3))"
proof (cases "global_tax_calculator 30 (1/10) None 3")
  case (Inl e)
  with weighted_average_equals_target [where b = 30 and ov = "1/10" and cap = None and p = 3] show ?thesis by simp
next
  case (Inr r)
  with weighted_average_equals_target [where b = 30 and ov = "1/10" and cap = None and p = 3] show ?thesis by simp
qed

lemma rates_scale:
  assumes "global_tax_calculator b ov None p = Inr r"
  shows "\<exists>r'. global_tax_calculator (l * b) ov None p = Inr r'
     \<and> ubi_yearly r' = l * ubi_yearly r
     \<and> total_needed r' = l * total_needed r
     \<and> required_share_gdp r' = l * required_share_gdp r
     \<and> avg_required_on_top10 r' = l * avg_required_on_top10 r
     \<and> r_90_99 (bracket_rates r') = l * r_90_99 (bracket_rates r)
     \<and> r_99_999 (bracket_rates r') = l * r_99_999 (bracket_rates r)
     \<and> r_999_100 (bracket_rates r') = l * r_999_100 (bracket_rates r)"
  using assms
  by (auto simp: global_tax_calculator_def Let_def base_multipliers_def split: if_splits)

text \<open>
  Claim C10. Without a cap, and with overhead and progression strength fixed, the solver
  is homogeneous of degree 1 in the basic income: it fails only at progression strength
  \<open>- 15540 / 11\<close>, and when it returns at \<open>b\<close> it returns at \<open>l * b\<close> with the four
  aggregate figures and the three bracket rates \<open>l\<close> times those at \<open>b\<close>.
\<close>

theorem rates_homogeneous:
  "case global_tax_calculator b ov None p of
     Inl e \<Rightarrow> p = - 15540 / 11
   | Inr r \<Rightarrow>
       (\<exists>r'. global_tax_calculator (l * b) ov None p = Inr r'
         \<and> ubi_yearly r' = l * ubi_yearly r
         \<and> total_needed r' = l * total_needed r
         \<and> required_share_gdp r' = l * required_share_gdp r
         \<and> avg_required_on_top10 r' = l * avg_required_on_top10 r
         \<and> r_90_99 (bracket_rates r') = l * r_90_99 (bracket_rates r)
         \<and> r_99_999 (bracket_rates r') = l * r_99_999 (bracket_rates r)
         \<and> r_999_100 (bracket_rates r') = l * r_999_100 (bracket_rates r))"
proof (cases "global_tax_calculator b ov None p")
  case (Inl e)
  then have "p = - 15540 / 11" by (simp add: global_tax_calculator_error_iff)
  with Inl show ?thesis by simp
next
  case (Inr r)
  with rates_scale [OF Inr, of l] show ?thesis by simp
qed

theorem rates_homogeneous_witness:
  "\<not> isl (global_tax_calculator 30 (1/10) None 3)
   \<and> \<not> isl (global_tax_calculator (2 * 30) (1/10) None 3)
   \<and> ubi_yearly (projr (global_tax_calculator (2 * 30) (1/10) None 3))
     = 2 * ubi_yearly (projr (global_tax_calculator 30 (1/10) None 3))
   \<and> avg_required_on_top10 (projr (global_tax_calculator (2 * 30) (1/10) None 3))
     = 2 * avg_required_on_top10 (projr (global_tax_calculator 30 (1/10) None 3))
   \<and> r_999_100 (bracket_rates (projr (global_tax_calculator (2 * 30) (1/10) None 3)))
     = 2 * r_999_100 (bracket_rates (projr (global_tax_calculator 30 (1/10) None 3)))"
proof (cases "global_tax_calculator 30 (1/10) None 3")
  case (Inl e)
  with rates_homogeneous [where b = 30 and ov = "1/10" and p = 3 and l = 2] show ?thesis by simp
next
  case (Inr r)
  with rates_homogeneous [where b = 30 and ov = "1/10" and p = 3 and l = 2] show ?thesis by auto
qed

text \<open>
  Claim C3, amended. At basic income 30, overhead 0.10, no cap and progression strength 3
  the solver returns \<open>ubi_yearly = 2.9628e12\<close>, \<open>total_needed = 3.25908e12\<close>,
  \<open>required_share_gdp\<close> within 0.00005 of 0.0333 and \<open>avg_required_on_top10\<close> within
  0.00005 of 0.0643, with \<open>top10_share = 0.518\<close>.
\<close>

theorem solver_scenario:
  "\<not> isl (global_tax_calculator 30 (1/10) None 3)
   \<and> \<bar>ubi_yearly (projr (global_tax_calculator 30 (1/10) None 3)) - 2962800000000\<bar>
       \<le> 50000000
   \<and> \<bar>total_needed (projr (global_tax_calculator 30 (1/10) None 3)) - 3259100000000\<bar>
       \<le> 50000000
   \<and> \<bar>required_share_gdp (projr (global_tax_calculator 30 (1/10) None 3)) - 0.0333\<bar>
       \<le> 0.00005
   \<and> \<bar>avg_required_on_top10 (projr (global_tax_calculator 30 (1/10) None 3)) - 0.0643\<bar>
       \<le> 0.00005
   \<and> top10_share = 0.518"
  by (simp add: global_tax_calculator_def Let_def constants_defs)

text \<open>
  The value 0.0633 that claim C3 gives for \<open>avg_required_on_top10\<close> is off by more than
  0.001: the code returns \<open>27159 / 422170\<close>, about 0.06433.
\<close>

theorem solver_scenario_counterexample:
  "\<not> isl (global_tax_calculator 30 (1/10) None 3)
   \<and> avg_required_on_top10 (projr (global_tax_calculator 30 (1/10) None 3)) = 27159 / 422170
   \<and> \<bar>avg_required_on_top10 (projr (global_tax_calculator 30 (1/10) None 3)) - 0.0633\<bar>
       > 0.001"
  by (simp add: global_tax_calculator_def Let_def constants_defs)

subsection \<open>The curve at and above the cap\<close>

text \<open>
  Claim C5. With a cap configured, the curve is exactly 1 at every annual income that is
  at least \<open>cap_yearly = basic_income * income_cap_factor * 12\<close>.
\<close>

theorem cap_rate_is_one:
  assumes "cap_yearly b f \<le> x"
  shows "create_tax_function rates b (Some f) x = 1"
  using assms by (simp add: create_tax_function_def)

theorem cap_rate_is_one_witness:
  "cap_yearly 30 100 = 30 * 100 * 12 \<and> cap_yearly 30 100 \<le> 36000
   \<and> create_tax_function \<lparr>r_90_99 = 0.02, r_99_999 = 0.1, r_999_100 = 0.17\<rparr>
        30 (Some 100) 36000 = 1"
proof -
  have h: "cap_yearly 30 100 \<le> 36000" by (simp add: cap_yearly_def)
  from cap_rate_is_one [OF h] h show ?thesis by (simp add: cap_yearly_def)
qed

subsection \<open>The integration\<close>

lemma np_linspace_map:
  assumes "2 \<le> n"
  shows "np_linspace a b n = map (\<lambda>i. a + real i * ((b - a) / real (n - 1))) [0..<n]"
proof -
  let ?g = "\<lambda>i. a + real i * ((b - a) / real (n - 1))"
  from assms have "?g (n - 1) = b" by simp
  then have "(map ?g [0..<n]) [n - 1 := b]
      = (map ?g [0..<n]) [n - 1 := (map ?g [0..<n]) ! (n - 1)]"
    using assms by simp
  also have "\<dots> = map ?g [0..<n]" by (rule list_update_id)
  finally show ?thesis using assms by (simp add: np_linspace_def)
qed

lemma np_insert_front: "np_insert arr 0 v = v # arr"
  by (simp add: np_insert_def)

lemma np_diff_Cons_map:
  "np_diff (v # map g [0..<n]) = map (\<lambda>i. g i - (if i = 0 then v else g (i - 1))) [0..<n]"
  by (rule nth_equalityI) (auto simp: np_diff_def nth_Cons')

lemma sum_list_products:
  "sum_list (map (\<lambda>(s, r). s * r) (zip (map d [0..<n]) (map c (map g [0..<n]))))
   = (\<Sum>i = 0..<n. d i * c (g i))"
proof -
  have "zip (map d [0..<n]) (map c (map g [0..<n])) = map (\<lambda>i. (d i, c (g i))) [0..<n]"
    by (rule nth_equalityI) simp_all
  then show ?thesis
    by (simp add: interv_sum_list_conv_sum_set_nat o_def)
qed

text \<open>
  The body of the integration for any number \<open>k + 1\<close> of samples: the first step size is
  \<open>0\<close> (the inserted \<open>0\<close> against the first sample \<open>0\<close>), every other one is
  \<open>T / k\<close>.
\<close>

lemma quadrature_steps:
  fixes T :: real
  assumes "1 \<le> k"
  shows "sum_list (map (\<lambda>(s, r). s * r)
           (zip (np_diff (np_insert (np_linspace 0 T (Suc k)) 0 0))
                (map curve (np_linspace 0 T (Suc k)))))
         = right_riemann_sum curve 0 T k"
proof -
  define h where "h = T / real k"
  define g where "g = (\<lambda>i. 0 + real i * ((T - 0) / real (Suc k - 1)))"
  define d where "d = (\<lambda>i. g i - (if i = 0 then 0 else g (i - 1)))"
  have g: "g i = real i * h" for i by (simp add: g_def h_def)
  have d0: "d 0 = 0" by (simp add: d_def g)
  have dS: "d i = h" if "1 \<le> i" for i
    using that by (simp add: d_def g of_nat_diff algebra_simps)
  from assms have lin: "np_linspace 0 T (Suc k) = map g [0..<Suc k]"
    unfolding g_def by (intro np_linspace_map) simp
  have "sum_list (map (\<lambda>(s, r). s * r)
           (zip (np_diff (np_insert (np_linspace 0 T (Suc k)) 0 0))
                (map curve (np_linspace 0 T (Suc k)))))
      = (\<Sum>i = 0..<Suc k. d i * curve (g i))"
    unfolding lin np_insert_front np_diff_Cons_map d_def [symmetric]
    by (rule sum_list_products)
  also have "\<dots> = d 0 * curve (g 0) + (\<Sum>i = Suc 0..<Suc k. d i * curve (g i))"
    by (simp add: sum.atLeast_Suc_lessThan)
  also have "\<dots> = (\<Sum>i = Suc 0..<Suc k. h * curve (real i * h))"
    using d0 by (simp add: dS g)
  also have "\<dots> = right_riemann_sum curve 0 T k"
    by (simp add: right_riemann_sum_def h_def atLeastLessThanSuc_atLeastAtMost)
  finally show ?thesis .
qed

lemma quadrature_riemann: "quadrature curve T = right_riemann_sum curve 0 T 9999"
proof -
  have "steps = Suc 9999" by (simp add: steps_def)
  then show ?thesis
    unfolding quadrature_def Let_def
    using quadrature_steps [of 9999 T curve] by simp
qed

lemma right_riemann_sum_zero: "right_riemann_sum f 0 0 n = 0"
  by (simp add: right_riemann_sum_def)

lemma quadrature_zero: "quadrature curve 0 = 0"
  by (simp add: quadrature_riemann right_riemann_sum_zero)

lemma length_np_linspace: "length (np_linspace a b n) = n"
  by (simp add: np_linspace_def)

text \<open>
  Claim C4. The integration samples the curve at 10,000 points and returns the
  right-endpoint Riemann sum of the curve over \<open>[0, taxable_income]\<close> cut into 9,999 equal
  subintervals; at \<open>taxable_income = 0\<close> it returns 0. The yearly tax of
  \<open>calculate_personal_outcome\<close> is that sum over \<open>[0, taxable_income]\<close>, plus the
  surcharge when a cap is exceeded.
\<close>

theorem tax_amount_is_riemann_sum:
  "length (np_linspace 0 T steps) = 10000
   \<and> quadrature curve T = right_riemann_sum curve 0 T 9999
   \<and> quadrature curve 0 = 0
   \<and> tax_amount (calculate_personal_outcome monthly_income b curve cap) * 12
     = (case cap of
          None \<Rightarrow> right_riemann_sum curve 0 (monthly_income * 12) 9999
        | Some f \<Rightarrow>
            right_riemann_sum curve 0 (min (monthly_income * 12) (cap_yearly b f)) 9999
            + (if monthly_income * 12 > cap_yearly b f
               then monthly_income * 12 - cap_yearly b f else 0))"
  by (simp add: quadrature_riemann right_riemann_sum_zero calculate_personal_outcome_def
      Let_def length_np_linspace steps_def split: option.split)

subsection \<open>The personal outcome at the cap and at zero income\<close>

text \<open>
  Claim C6. With a cap configured and a yearly income equal to \<open>cap_yearly\<close>, the test
  \<open>yearly_income > cap_yearly\<close> is false and no surcharge is added: the yearly tax is the
  integration up to the cap alone.
\<close>

theorem no_surcharge_at_cap:
  assumes "monthly_income * 12 = cap_yearly b f"
  shows "tax_amount (calculate_personal_outcome monthly_income b curve (Some f))
         = quadrature curve (cap_yearly b f) / 12"
  using assms by (simp add: calculate_personal_outcome_def Let_def)

theorem no_surcharge_at_cap_witness:
  "(3000::real) * 12 = cap_yearly 30 100
   \<and> tax_amount (calculate_personal_outcome 3000 30
        (create_tax_function \<lparr>r_90_99 = 0.02, r_99_999 = 0.1, r_999_100 = 0.17\<rparr>
           30 (Some 100)) (Some 100))
     = quadrature
         (create_tax_function \<lparr>r_90_99 = 0.02, r_99_999 = 0.1, r_999_100 = 0.17\<rparr>
            30 (Some 100)) 36000 / 12"
proof -
  have h: "(3000::real) * 12 = cap_yearly 30 100" by (simp add: cap_yearly_def)
  from no_surcharge_at_cap [OF h] h show ?thesis by (simp add: cap_yearly_def)
qed

text \<open>
  Claim C7. With a cap configured, the monthly after-tax income is at most
  \<open>cap_yearly / 12 + basic_income\<close>, whatever the monthly income and the curve.
\<close>

theorem after_tax_income_capped:
  "after_tax_income_monthly (calculate_personal_outcome monthly_income b curve (Some f))
   \<le> cap_yearly b f / 12 + b"
  by (simp add: calculate_personal_outcome_def Let_def min_def)

text \<open>The two guards on \<open>yearly_income > 0\<close> hold at zero income for any arguments.\<close>

lemma zero_income_guards:
  "tax_rate (calculate_personal_outcome 0 b curve cap) = 0
   \<and> diff_pct (calculate_personal_outcome 0 b curve cap) = 0"
  by (simp add: calculate_personal_outcome_def Let_def)

text \<open>
  Claim C9. At monthly income 0, for a basic income that is not negative and a cap factor
  that is absent or positive, \<open>calculate_personal_outcome\<close> returns tax rate 0, monthly tax
  0, monthly after-tax income equal to the basic income, and relative difference 0.
\<close>

theorem zero_income_outcome:
  assumes "0 \<le> b" and "valid_cap cap"
  shows "calculate_personal_outcome 0 b curve cap =
     \<lparr>tax_rate = 0, tax_amount = 0, after_tax_income_monthly = b, diff_eur = b,
      diff_pct = 0\<rparr>"
proof (cases cap)
  case None
  then show ?thesis
    by (simp add: calculate_personal_outcome_def Let_def quadrature_zero)
next
  case (Some f)
  with assms have "0 \<le> cap_yearly b f"
    by (simp add: valid_cap_def cap_yearly_def)
  with Some show ?thesis
    by (simp add: calculate_personal_outcome_def Let_def quadrature_zero min_def)
qed

theorem zero_income_outcome_witness:
  "(0::real) \<le> 30 \<and> valid_cap (Some 100)
   \<and> calculate_personal_outcome 0 30 (\<lambda>x. 1) (Some 100) =
     \<lparr>tax_rate = 0, tax_amount = 0, after_tax_income_monthly = 30, diff_eur = 30,
      diff_pct = 0\<rparr>"
proof -
  have h1: "(0::real) \<le> 30" by simp
  have h2: "valid_cap (Some 100)" by (simp add: valid_cap_def)
  from zero_income_outcome [OF h1 h2] h2 show ?thesis by simp
qed

subsection \<open>The curve below the cap\<close>

text \<open>
  One segment of the interpolation: between two positions with values in order, the
  interpolated value stays between the two values and grows with the argument.
\<close>

lemma segment_bounds:
  fixes x0 x1 y0 y1 t :: real
  assumes "x0 < x1" "y0 \<le> y1" "x0 \<le> t" "t \<le> x1"
  shows "y0 \<le> (y1 - y0) / (x1 - x0) * (t - x0) + y0"
    and "(y1 - y0) / (x1 - x0) * (t - x0) + y0 \<le> y1"
proof -
  have s: "0 \<le> (y1 - y0) / (x1 - x0)" using assms by simp
  then show "y0 \<le> (y1 - y0) / (x1 - x0) * (t - x0) + y0" using assms by simp
  have "(y1 - y0) / (x1 - x0) * (t - x0) \<le> (y1 - y0) / (x1 - x0) * (x1 - x0)"
    using s assms by (intro mult_left_mono) simp_all
  also have "\<dots> = y1 - y0" using assms by simp
  finally show "(y1 - y0) / (x1 - x0) * (t - x0) + y0 \<le> y1" by simp
qed

lemma segment_mono:
  fixes x0 x1 y0 y1 s t :: real
  assumes "x0 < x1" "y0 \<le> y1" "s \<le> t"
  shows "(y1 - y0) / (x1 - x0) * (s - x0) + y0 \<le> (y1 - y0) / (x1 - x0) * (t - x0) + y0"
proof -
  have "0 \<le> (y1 - y0) / (x1 - x0)" using assms by simp
  then have "(y1 - y0) / (x1 - x0) * (s - x0) \<le> (y1 - y0) / (x1 - x0) * (t - x0)"
    using assms by (intro mult_left_mono) simp_all
  then show ?thesis by simp
qed

text \<open>
  For increasing positions and values in order, \<open>np.interp\<close> stays between the first
  and the last value and is monotone in its argument.
\<close>

lemma interp_from_bounds:
  assumes "length xp = length fp" "xp \<noteq> []" "sorted_wrt (<) xp" "sorted fp" "hd xp \<le> t"
  shows "hd fp \<le> interp_from t xp fp \<and> interp_from t xp fp \<le> last fp"
  using assms
proof (induction t xp fp rule: interp_from.induct)
  case (1 x x0 x1 xs y0 y1 ys)
  show ?case
  proof (cases "x < x1")
    case True
    with 1 have b: "x0 < x1" "y0 \<le> y1" "x0 \<le> x" "x \<le> x1" by auto
    have "y1 \<le> last (y1 # ys)" using 1(5) by (cases ys) (auto simp: last_conv_nth)
    with segment_bounds [OF b] b True show ?thesis by auto
  next
    case False
    with 1 have "hd (y1 # ys) \<le> interp_from x (x1 # xs) (y1 # ys)
        \<and> interp_from x (x1 # xs) (y1 # ys) \<le> last (y1 # ys)"
      by (intro 1(1)) auto
    moreover from 1(5) have "y0 \<le> y1" by simp
    ultimately show ?thesis using False by auto
  qed
qed auto


lemma interp_from_mono:
  assumes "length xp = length fp" "xp \<noteq> []" "sorted_wrt (<) xp" "sorted fp"
    "hd xp \<le> s" "s \<le> t"
  shows "interp_from s xp fp \<le> interp_from t xp fp"
  using assms
proof (induction s xp fp rule: interp_from.induct)
  case (1 x x0 x1 xs y0 y1 ys)
  from 1 have b: "x0 < x1" "y0 \<le> y1" "x0 \<le> x" by auto
  from 1 have tl: "length (x1 # xs) = length (y1 # ys)" "x1 # xs \<noteq> []"
    "sorted_wrt (<) (x1 # xs)" "sorted (y1 # ys)" by auto
  show ?case
  proof (cases "t < x1")
    case True
    with 1 b have "x < x1" "x0 \<le> t" "t \<le> x1" by auto
    with segment_mono [OF b(1,2) \<open>x \<le> t\<close>] segment_bounds(1) [OF b(1,2) \<open>x0 \<le> t\<close> \<open>t \<le> x1\<close>]
    show ?thesis using True b by auto
  next
    case t: False
    then have "hd (x1 # xs) \<le> t" by simp
    from interp_from_bounds [OF tl this]
    have lo: "y1 \<le> interp_from t (x1 # xs) (y1 # ys)" by simp
    show ?thesis
    proof (cases "x < x1")
      case True
      then have "x \<le> x1" by simp
      from segment_bounds(2) [OF b(1,2,3) this] b lo True t show ?thesis by auto
    next
      case False
      with 1 have "interp_from x (x1 # xs) (y1 # ys) \<le> interp_from t (x1 # xs) (y1 # ys)"
        by (intro 1(1)) auto
      with False t show ?thesis by simp
    qed
  qed
qed auto

lemma np_interp_mono:
  assumes "length xp = length fp" "xp \<noteq> []" "sorted_wrt (<) xp" "sorted fp" "s \<le> t"
  shows "np_interp s xp fp \<le> np_interp t xp fp"
proof -
  from assms have fp: "fp \<noteq> []" by auto
  have ends: "hd fp \<le> last fp"
    using assms(4) fp by (cases fp) (auto simp: last_conv_nth)
  consider "last xp < s" | "s \<le> last xp" "s < hd xp" | "s \<le> last xp" "hd xp \<le> s"
    by linarith
  then show ?thesis
  proof cases
    case 1
    with assms(5) show ?thesis by (simp add: np_interp_def)
  next
    case 2
    show ?thesis
    proof (cases "t < hd xp \<or> last xp < t")
      case True
      with 2 ends show ?thesis by (auto simp: np_interp_def)
    next
      case False
      then have "hd xp \<le> t" by simp
      from interp_from_bounds [OF assms(1-4) this] 2 False show ?thesis
        by (simp add: np_interp_def)
    qed
  next
    case 3
    show ?thesis
    proof (cases "last xp < t")
      case True
      with 3 interp_from_bounds [OF assms(1-4) 3(2)] show ?thesis
        by (simp add: np_interp_def)
    next
      case False
      with 3 assms(5) interp_from_mono [OF assms(1-4) 3(2) assms(5)] show ?thesis
        by (simp add: np_interp_def)
    qed
  qed
qed

text \<open>The curve away from the cap: the interpolation over the logarithms of the anchors.\<close>

lemma create_tax_function_uncapped:
  "create_tax_function rates b None x =
     np_interp (ln (max x 1)) [0, ln 15000, ln 55000, ln 200000] (y_points rates)"
  by (simp add: create_tax_function_def x_points_def Let_def)

lemma create_tax_function_below_cap:
  assumes "x < cap_yearly b f"
  shows "create_tax_function rates b (Some f) x = create_tax_function rates b None x"
  using assms by (simp add: create_tax_function_def)

lemma uncapped_curve_mono:
  assumes "0 \<le> r_90_99 rates" "r_90_99 rates \<le> r_99_999 rates"
    "r_99_999 rates \<le> r_999_100 rates" "x \<le> y"
  shows "create_tax_function rates b None x \<le> create_tax_function rates b None y"
proof -
  have "ln (max x 1) \<le> ln (max y 1)" using assms(4) by simp
  moreover have "sorted_wrt (<) [0, ln 15000, ln 55000, ln (200000::real)]" by simp
  moreover have "sorted (y_points rates)" using assms(1-3) by (simp add: y_points_def)
  ultimately show ?thesis
    unfolding create_tax_function_uncapped
    by (intro np_interp_mono) (simp_all add: y_points_def)
qed

text \<open>
  Claim C8. For bracket rates that are non-negative and non-decreasing from the first
  segment to the last, the curve is non-decreasing in the annual income: everywhere
  without a cap, and on the incomes below \<open>cap_yearly\<close> with one.
\<close>

theorem curve_monotone:
  assumes "0 \<le> r_90_99 rates" "r_90_99 rates \<le> r_99_999 rates"
    "r_99_999 rates \<le> r_999_100 rates" "x \<le> y"
    and "case cap of None \<Rightarrow> True | Some f \<Rightarrow> y < cap_yearly b f"
  shows "create_tax_function rates b cap x \<le> create_tax_function rates b cap y"
proof (cases cap)
  case None
  with uncapped_curve_mono [OF assms(1-4)] show ?thesis by simp
next
  case (Some f)
  with assms(4,5) have "x < cap_yearly b f" "y < cap_yearly b f" by auto
  with Some uncapped_curve_mono [OF assms(1-4)] show ?thesis
    by (simp add: create_tax_function_below_cap)
qed

theorem curve_monotone_witness:
  "(0::real) \<le> 0.02 \<and> (0.02::real) \<le> 0.1 \<and> (0.1::real) \<le> 0.17 \<and> (20000::real) \<le> 30000
   \<and> 30000 < cap_yearly 30 100
   \<and> create_tax_function \<lparr>r_90_99 = 0.02, r_99_999 = 0.1, r_999_100 = 0.17\<rparr>
        30 (Some 100) 20000
     \<le> create_tax_function \<lparr>r_90_99 = 0.02, r_99_999 = 0.1, r_999_100 = 0.17\<rparr>
          30 (Some 100) 30000"
proof -
  have c: "30000 < cap_yearly 30 100" by (simp add: cap_yearly_def)
  have "create_tax_function \<lparr>r_90_99 = 0.02, r_99_999 = 0.1, r_999_100 = 0.17\<rparr>
        30 (Some 100) 20000
     \<le> create_tax_function \<lparr>r_90_99 = 0.02, r_99_999 = 0.1, r_999_100 = 0.17\<rparr>
          30 (Some 100) 30000"
    by (rule curve_monotone) (simp_all add: c)
  with c show ?thesis by simp
qed

text \<open>
  Between annual incomes 1 and 15,000 the curve follows the first segment of the
  interpolation, from rate 0 at income 1 to the rate of the 90-99% bracket at 15,000;
  up to income 1 it is 0.
\<close>

lemma curve_below_first_anchor:
  assumes "1 < x" "x < 15000"
  shows "create_tax_function rates b None x = r_90_99 rates / ln 15000 * ln x"
  using assms
  by (simp add: create_tax_function_uncapped np_interp_def y_points_def)

lemma curve_up_to_one:
  assumes "x \<le> 1"
  shows "create_tax_function rates b None x = 0"
  using assms
  by (simp add: create_tax_function_uncapped np_interp_def y_points_def max_def)

lemma ln_ratio_12000: "9 / 10 < ln (12000::real) / ln 15000"
proof -
  have a: "9 * ln (15000::real) = ln (15000 ^ 9)"
    using ln_realpow [of "15000::real" 9] by simp
  have b: "10 * ln (12000::real) = ln (12000 ^ 10)"
    using ln_realpow [of "12000::real" 10] by simp
  have "ln ((15000::real) ^ 9) < ln (12000 ^ 10)"
    by (subst ln_less_cancel_iff) simp_all
  then have "9 * ln (15000::real) < 10 * ln 12000"
    unfolding a b .
  moreover have "0 < ln (15000::real)" by simp
  ultimately show ?thesis by (simp add: field_simps)
qed

text \<open>
  Claim C2 says that the curve is 0 at every annual income below 15,000, as the comment on
  the anchor points does (bottom 90% at 0%). With the bracket rates that the solver
  returns for basic income 30, overhead 0.10, no cap and progression strength 3, the curve
  at annual income 12,000 is \<open>190113 / 8461330 * (ln 12000 / ln 15000)\<close>, which is
  more than 2%.
\<close>

theorem low_income_is_taxed:
  "\<not> isl (global_tax_calculator 30 (1/10) None 3)
   \<and> create_tax_function (bracket_rates (projr (global_tax_calculator 30 (1/10) None 3)))
        30 None 12000
     = 190113 / 8461330 * (ln 12000 / ln 15000)
   \<and> create_tax_function (bracket_rates (projr (global_tax_calculator 30 (1/10) None 3)))
        30 None 12000
     > 1 / 50"
proof -
  let ?G = "global_tax_calculator 30 (1/10) None 3"
  have ret: "\<not> isl ?G"
    by (simp add: global_tax_calculator_def constants_defs Let_def)
  have r1: "r_90_99 (bracket_rates (projr ?G)) = 190113 / 8461330"
    by (simp add: global_tax_calculator_def constants_defs Let_def)
  have val: "create_tax_function (bracket_rates (projr ?G)) 30 None 12000
      = 190113 / 8461330 * (ln 12000 / ln 15000)"
    by (subst curve_below_first_anchor) (simp_all add: r1)
  have "(1::real) / 50 < 190113 / 8461330 * (9 / 10)" by simp
  also have "\<dots> < 190113 / 8461330 * (ln 12000 / ln 15000)"
    using ln_ratio_12000 by (intro mult_strict_left_mono) simp_all
  finally show ?thesis using ret val by simp
qed

end
